theory Spec2Isabelle
  imports Main
begin

section \<open>The enrollment modal: component state\<close>

text \<open>
  The development embeds \<^verbatim>\<open>src/components/EnrollmentModal.tsx\<close>. The component keeps
  its state in eleven \<^verbatim>\<open>useState\<close> cells; here they are the fields of one record.
  A handler of the component reads the cells of the render it was created in (its
  closure) and calls setters and collaborators. It is modelled as a function from that
  closure state (and the outcomes of the collaborators it awaits) to the list of actions
  it performs, in program order. Setter actions are then applied to whatever the state
  is when they run, so a continuation that resumes after an \<^verbatim>\<open>await\<close> can be applied to a
  state that other handlers have changed meanwhile.

  Prices are JavaScript numbers in the source; they are integers here. Strings are
  \<^typ>\<open>string\<close>; the white space removed by \<^verbatim>\<open>trim\<close> and the letters changed by
  \<^verbatim>\<open>toUpperCase\<close> are the ASCII ones.
\<close>

text \<open>\<^verbatim>\<open>type Step = 'details' | 'payment' | 'processing' | 'success' | 'error'\<close>\<close>

datatype Step = Details | Payment | Processing | Success | Error

text \<open>\<^verbatim>\<open>'eversend' | 'flutterwave'\<close>\<close>

datatype PaymentMethod = Eversend | Flutterwave

record FormData =
  firstName :: string
  lastName :: string
  email :: string
  phoneNumber :: string
  acceptTerms :: bool

text \<open>\<^verbatim>\<open>{ percentage?: number; amount?: number }\<close>\<close>

record Discount =
  percentage :: "int option"
  amount :: "int option"

record ModalState =
  step :: Step
  formData :: FormData
  coursePrice :: int
  paymentMethod :: PaymentMethod
  errorMessage :: "string option"
  enrollmentId :: "string option"
  promoCode :: string
  promoValidating :: bool
  promoError :: "string option"
  promoDiscount :: "Discount option"
  finalPrice :: int

text \<open>What \<^verbatim>\<open>useAuth()\<close> supplies: \<^verbatim>\<open>user\<close> and \<^verbatim>\<open>profile\<close>, either of which may be
  null; \<^verbatim>\<open>profile.name\<close> and \<^verbatim>\<open>profile.email\<close> may be missing.\<close>

record User =
  user_id :: string

record Profile =
  profile_name :: "string option"
  profile_email :: "string option"

section \<open>Collaborator results\<close>

text \<open>An awaited call either resolves to a value or throws. \<open>Rejected (Some m)\<close> is a
  thrown \<^verbatim>\<open>Error\<close> with message \<open>m\<close>, \<open>Rejected None\<close> a thrown value that is not
  an \<^verbatim>\<open>Error\<close>.\<close>

datatype 'a outcome = Rejected "string option" | Resolved 'a

text \<open>The catalog query \<^verbatim>\<open>{ data, error }\<close>: \<open>fetch_error\<close> says whether \<^verbatim>\<open>error\<close> is
  set, \<open>fetch_data\<close> is the row (null, or a row whose \<^verbatim>\<open>course_price\<close> may be null).\<close>

record FetchResult =
  fetch_error :: bool
  fetch_data :: "int option option"

text \<open>The result of \<^verbatim>\<open>validatePromoCode\<close>.\<close>

record PromoResult =
  valid :: bool
  final_price :: "int option"
  discount_percentage :: "int option"
  discount_amount :: "int option"
  promo_error :: "string option"

text \<open>The \<^verbatim>\<open>error\<close> member of the storage probe's response: null, or an object whose
  \<^verbatim>\<open>code\<close> may be missing.\<close>

record PostgrestError =
  code :: "string option"

text \<open>The result of \<^verbatim>\<open>initiateEnrollment\<close>.\<close>

record EnrollmentResult =
  res_success :: bool
  res_enrollmentId :: "string option"
  res_paymentUrl :: "string option"
  res_error :: "string option"

text \<open>The outcomes of the three calls \<^verbatim>\<open>handlePayment\<close> makes: the storage probe,
  \<^verbatim>\<open>initiateEnrollment\<close> and \<^verbatim>\<open>sessionStorage.setItem\<close>.\<close>

record Collaborators =
  probe :: "PostgrestError option outcome"
  initiate :: "EnrollmentResult outcome"
  setItem :: "unit outcome"

section \<open>Actions\<close>

text \<open>The argument of \<^verbatim>\<open>JSON.stringify\<close>, as the JSON value it serialises: a member
  whose value is \<^verbatim>\<open>undefined\<close> is left out.\<close>

datatype json = JString string | JObject "(string \<times> json) list"

datatype action =
    SetStep Step
  | SetFormData FormData
  | SetCoursePrice int
  | SetPaymentMethod PaymentMethod
  | SetErrorMessage "string option"
  | SetEnrollmentId "string option"
  | SetPromoCode string
  | SetPromoValidating bool
  | SetPromoError "string option"
  | SetPromoDiscount "Discount option"
  | SetFinalPrice int
  | ConsoleError string
  | ProbeStorage
  | ValidatePromoCode string string int
  | InitiateEnrollment string string int string string string bool
  | SessionStorageSetItem string json
  | Navigate string
  | SetTimeout nat "action list"
  | OnEnrollmentComplete
  | OnClose

fun apply_action :: "action \<Rightarrow> ModalState \<Rightarrow> ModalState" where
  "apply_action (SetStep v) s = s\<lparr>step := v\<rparr>"
| "apply_action (SetFormData v) s = s\<lparr>formData := v\<rparr>"
| "apply_action (SetCoursePrice v) s = s\<lparr>coursePrice := v\<rparr>"
| "apply_action (SetPaymentMethod v) s = s\<lparr>paymentMethod := v\<rparr>"
| "apply_action (SetErrorMessage v) s = s\<lparr>errorMessage := v\<rparr>"
| "apply_action (SetEnrollmentId v) s = s\<lparr>enrollmentId := v\<rparr>"
| "apply_action (SetPromoCode v) s = s\<lparr>promoCode := v\<rparr>"
| "apply_action (SetPromoValidating v) s = s\<lparr>promoValidating := v\<rparr>"
| "apply_action (SetPromoError v) s = s\<lparr>promoError := v\<rparr>"
| "apply_action (SetPromoDiscount v) s = s\<lparr>promoDiscount := v\<rparr>"
| "apply_action (SetFinalPrice v) s = s\<lparr>finalPrice := v\<rparr>"
| "apply_action _ s = s"

text \<open>The state after a list of actions has run, in order.\<close>

fun run :: "action list \<Rightarrow> ModalState \<Rightarrow> ModalState" where
  "run [] s = s"
| "run (a # as) s = run as (apply_action a s)"

section \<open>String helpers of the host language\<close>

definition is_ws :: "char \<Rightarrow> bool" where
  "is_ws c = (c = CHR '' '' \<or> c = CHR 0x09 \<or> c = CHR 0x0A \<or> c = CHR 0x0B
     \<or> c = CHR 0x0C \<or> c = CHR 0x0D)"

text \<open>\<^verbatim>\<open>String.prototype.trim\<close>, on ASCII text. The host function also strips U+00A0
  and the other Unicode white space, which a \<^typ>\<open>string\<close> of ASCII characters does not
  contain; on input with such characters the model and the source differ.\<close>

definition trim :: "string \<Rightarrow> string" where
  "trim x = rev (dropWhile is_ws (rev (dropWhile is_ws x)))"

text \<open>\<^verbatim>\<open>String.prototype.toUpperCase\<close>, on ASCII text: the letters a to z are changed,
  every other character is kept. The host function also maps letters outside ASCII.\<close>

definition toUpperCase :: "string \<Rightarrow> string" where
  "toUpperCase x =
     map (\<lambda>c. if 97 \<le> (of_char c :: nat) \<and> (of_char c :: nat) \<le> 122
               then char_of ((of_char c :: nat) - 32) else c) x"

text \<open>\<^verbatim>\<open>x.split(sep)\<close> for a one-character separator; \<open>cur\<close> is the piece being read,
  reversed.\<close>

fun split_acc :: "char \<Rightarrow> string \<Rightarrow> string \<Rightarrow> string list" where
  "split_acc sep cur [] = [rev cur]"
| "split_acc sep cur (c # cs) =
     (if c = sep then rev cur # split_acc sep [] cs else split_acc sep (c # cur) cs)"

definition split :: "char \<Rightarrow> string \<Rightarrow> string list" where
  "split sep x = split_acc sep [] x"

text \<open>\<^verbatim>\<open>xs[i]\<close>: \<^verbatim>\<open>undefined\<close> out of range.\<close>

definition at_index :: "'a list \<Rightarrow> nat \<Rightarrow> 'a option" where
  "at_index xs i = (if i < length xs then Some (xs ! i) else None)"

text \<open>\<^verbatim>\<open>x || d\<close> for an optional string \<open>x\<close>: the empty string is falsy too.\<close>

definition or_else :: "string option \<Rightarrow> string \<Rightarrow> string" where
  "or_else x d = (case x of None \<Rightarrow> d | Some v \<Rightarrow> if v = [] then d else v)"

text \<open>\<^verbatim>\<open>x || null\<close>\<close>

definition or_null :: "string option \<Rightarrow> string option" where
  "or_null x = (case x of None \<Rightarrow> None | Some v \<Rightarrow> if v = [] then None else Some v)"

text \<open>\<^verbatim>\<open>x || 0\<close> for an optional number.\<close>

definition or_zero :: "int option \<Rightarrow> int" where
  "or_zero x = (case x of None \<Rightarrow> 0 | Some v \<Rightarrow> v)"

section \<open>The handlers\<close>

subsection \<open>Initial and default form\<close>

text \<open>\<^verbatim>\<open>profile?.name?.split(' ')[i] || ''\<close>\<close>

definition name_part :: "Profile option \<Rightarrow> nat \<Rightarrow> string" where
  "name_part profile i =
     (case profile of
        None \<Rightarrow> []
      | Some p \<Rightarrow>
          (case profile_name p of
             None \<Rightarrow> []
           | Some n \<Rightarrow> or_else (at_index (split CHR '' '' n) i) []))"

definition defaultFormData :: "Profile option \<Rightarrow> FormData" where
  "defaultFormData profile =
     \<lparr> firstName = name_part profile 0,
       lastName = name_part profile 1,
       email = (case profile of None \<Rightarrow> [] | Some p \<Rightarrow> or_else (profile_email p) []),
       phoneNumber = [],
       acceptTerms = False \<rparr>"

text \<open>The state of a freshly mounted component (the \<^verbatim>\<open>useState\<close> initialisers).\<close>

definition initialState :: "Profile option \<Rightarrow> ModalState" where
  "initialState profile =
     \<lparr> step = Details,
       formData = defaultFormData profile,
       coursePrice = 0,
       paymentMethod = Eversend,
       errorMessage = None,
       enrollmentId = None,
       promoCode = [],
       promoValidating = False,
       promoError = None,
       promoDiscount = None,
       finalPrice = 0 \<rparr>"

subsection \<open>Price fetch\<close>

text \<open>The body of \<^verbatim>\<open>fetchCoursePrice\<close>, given the outcome of the awaited query.\<close>

definition fetchCoursePrice :: "FetchResult outcome \<Rightarrow> action list" where
  "fetchCoursePrice out =
     (case out of
        Rejected m \<Rightarrow>
          [ConsoleError ''Error fetching course price:'', SetCoursePrice 0, SetFinalPrice 0]
      | Resolved r \<Rightarrow>
          (case (if fetch_error r then None else fetch_data r) of
             Some row \<Rightarrow> [SetCoursePrice (or_zero row), SetFinalPrice (or_zero row)]
           | None \<Rightarrow> []))"

text \<open>The effect that runs when \<^verbatim>\<open>isOpen\<close> or \<^verbatim>\<open>course.id\<close> changes.\<close>

definition priceEffect :: "bool \<Rightarrow> string \<Rightarrow> FetchResult outcome \<Rightarrow> action list" where
  "priceEffect isOpen course_id out =
     (if \<not> isOpen \<or> course_id = [] then [] else fetchCoursePrice out)"

subsection \<open>Promo code\<close>

text \<open>The \<^verbatim>\<open>onChange\<close> handler of the promo input; \<open>s\<close> is the closure state.\<close>

definition promoOnChange :: "string \<Rightarrow> ModalState \<Rightarrow> action list" where
  "promoOnChange v s =
     [SetPromoCode (toUpperCase v), SetPromoError None, SetPromoDiscount None,
      SetFinalPrice (coursePrice s)]"

text \<open>\<^verbatim>\<open>handleValidatePromo\<close> up to its \<^verbatim>\<open>await\<close>: \<open>c\<close> is the closure state.\<close>

definition handleValidatePromo_issue :: "string \<Rightarrow> ModalState \<Rightarrow> action list" where
  "handleValidatePromo_issue course_id c =
     (if trim (promoCode c) = [] then [SetPromoError (Some ''Enter a promo code'')]
      else [SetPromoValidating True, SetPromoError None,
            ValidatePromoCode (promoCode c) course_id (coursePrice c)])"

text \<open>\<^verbatim>\<open>handleValidatePromo\<close> after its \<^verbatim>\<open>await\<close>, for the same closure state \<open>c\<close>. A
  rejected promise ends the handler there (it has no \<^verbatim>\<open>try\<close>).\<close>

definition handleValidatePromo_resume :: "ModalState \<Rightarrow> PromoResult outcome \<Rightarrow> action list" where
  "handleValidatePromo_resume c out =
     (if trim (promoCode c) = [] then []
      else case out of
        Rejected m \<Rightarrow> []
      | Resolved r \<Rightarrow>
          (case (if valid r then final_price r else None) of
             Some p \<Rightarrow>
               [SetPromoDiscount
                  (Some \<lparr> percentage = discount_percentage r, amount = discount_amount r \<rparr>),
                SetFinalPrice p, SetPromoError None]
           | None \<Rightarrow>
               [SetPromoError (Some (or_else (promo_error r) ''Invalid promo code'')),
                SetPromoDiscount None, SetFinalPrice (coursePrice c)])
          @ [SetPromoValidating False])"

subsection \<open>Form validation\<close>

text \<open>\<^verbatim>\<open>validateForm\<close>: the boolean it returns and the setter calls it makes.\<close>

definition validateForm :: "ModalState \<Rightarrow> bool \<times> action list" where
  "validateForm c =
     (if trim (firstName (formData c)) = []
      then (False, [SetErrorMessage (Some ''First name is required'')])
      else if trim (email (formData c)) = []
      then (False, [SetErrorMessage (Some ''Email is required'')])
      else if coursePrice c > 0 \<and> trim (phoneNumber (formData c)) = []
      then (False, [SetErrorMessage (Some ''Phone number is required for paid courses'')])
      else if \<not> acceptTerms (formData c)
      then (False, [SetErrorMessage (Some ''You must accept the terms and conditions'')])
      else (True, []))"

subsection \<open>Payment\<close>

definition setup_message :: string where
  "setup_message =
     ''Database setup required. Please run the 3 SQL migrations from the database folder first.''"

text \<open>Whether the probe's response takes the \<^verbatim>\<open>PGRST116\<close> branch.\<close>

definition probe_not_found :: "PostgrestError option outcome \<Rightarrow> bool" where
  "probe_not_found out =
     (case out of
        Rejected m \<Rightarrow> False
      | Resolved None \<Rightarrow> False
      | Resolved (Some e) \<Rightarrow> code e = Some ''PGRST116'')"

text \<open>The \<^verbatim>\<open>catch\<close> block of the probe.\<close>

definition probe_catch :: "PostgrestError option outcome \<Rightarrow> action list" where
  "probe_catch out =
     (case out of Rejected m \<Rightarrow> [ConsoleError ''Database check failed:''] | Resolved e \<Rightarrow> [])"

text \<open>The \<^verbatim>\<open>catch\<close> block around payment initiation.\<close>

definition payment_catch :: "string option \<Rightarrow> action list" where
  "payment_catch m =
     [SetErrorMessage (Some (case m of Some msg \<Rightarrow> msg | None \<Rightarrow> ''Payment failed'')),
      SetStep Error]"

definition method_name :: "PaymentMethod \<Rightarrow> string" where
  "method_name pm = (case pm of Eversend \<Rightarrow> ''eversend'' | Flutterwave \<Rightarrow> ''flutterwave'')"

text \<open>The object handed to \<^verbatim>\<open>JSON.stringify\<close> in the redirect branch.\<close>

definition pending_record ::
  "string option \<Rightarrow> string \<Rightarrow> string \<Rightarrow> PaymentMethod \<Rightarrow> json" where
  "pending_record eid course_id uid pm =
     JObject
       ((case eid of None \<Rightarrow> [] | Some e \<Rightarrow> [(''enrollmentId'', JString e)]) @
        [(''courseId'', JString course_id),
         (''userId'', JString uid),
         (''paymentMethod'', JString (method_name pm))])"

text \<open>The \<^verbatim>\<open>try\<close> block of \<^verbatim>\<open>handlePayment\<close>, with its \<^verbatim>\<open>catch\<close>.\<close>

definition payment_try ::
  "User \<Rightarrow> string \<Rightarrow> Collaborators \<Rightarrow> ModalState \<Rightarrow> action list" where
  "payment_try u course_id env c =
     InitiateEnrollment (user_id u) course_id (finalPrice c) (email (formData c))
       (trim (firstName (formData c) @ '' '' @ lastName (formData c)))
       (phoneNumber (formData c)) (paymentMethod c = Eversend) #
     (case initiate env of
        Rejected m \<Rightarrow> payment_catch m
      | Resolved r \<Rightarrow>
          if \<not> res_success r
          then [SetErrorMessage (Some (or_else (res_error r) ''Payment initialization failed'')),
                SetStep Error]
          else SetEnrollmentId (or_null (res_enrollmentId r)) #
            (case or_null (res_paymentUrl r) of
               None \<Rightarrow> [SetStep Success, SetTimeout 2000 [OnEnrollmentComplete, OnClose]]
             | Some url \<Rightarrow>
                 (case setItem env of
                    Rejected m \<Rightarrow> payment_catch m
                  | Resolved ok \<Rightarrow>
                      [SessionStorageSetItem ''pendingEnrollment''
                         (pending_record (res_enrollmentId r) course_id (user_id u)
                            (paymentMethod c)),
                       Navigate url])))"

text \<open>\<^verbatim>\<open>handlePayment\<close>; \<open>c\<close> is the closure state.\<close>

definition handlePayment ::
  "User option \<Rightarrow> string \<Rightarrow> Collaborators \<Rightarrow> ModalState \<Rightarrow> action list" where
  "handlePayment user course_id env c =
     (case user of
        None \<Rightarrow> [SetErrorMessage (Some ''User not authenticated'')]
      | Some u \<Rightarrow>
          [SetErrorMessage None, ProbeStorage] @
          (if probe_not_found (probe env)
           then [SetErrorMessage (Some setup_message), SetStep Error]
           else probe_catch (probe env) @ [SetStep Processing] @
                payment_try u course_id env c))"

text \<open>\<^verbatim>\<open>handleProceedToPayment\<close>\<close>

definition handleProceedToPayment ::
  "User option \<Rightarrow> string \<Rightarrow> Collaborators \<Rightarrow> ModalState \<Rightarrow> action list" where
  "handleProceedToPayment user course_id env c =
     SetErrorMessage None #
     snd (validateForm c) @
     (if \<not> fst (validateForm c) then []
      else if coursePrice c = 0 then handlePayment user course_id env c
      else [SetStep Payment])"

subsection \<open>Close\<close>

text \<open>\<^verbatim>\<open>handleClose\<close>\<close>

definition handleClose :: "Profile option \<Rightarrow> ModalState \<Rightarrow> action list" where
  "handleClose profile c =
     (if step c \<noteq> Processing
      then [SetStep Details, SetFormData (defaultFormData profile), SetErrorMessage None,
            SetEnrollmentId None, OnClose]
      else [])"


section \<open>Observations on action lists\<close>

text \<open>The calls of \<^verbatim>\<open>initiateEnrollment\<close> in a list of actions.\<close>

fun is_initiate :: "action \<Rightarrow> bool" where
  "is_initiate (InitiateEnrollment uid cid amt em nm ph ev) = True"
| "is_initiate a = False"

definition initiate_calls :: "action list \<Rightarrow> action list" where
  "initiate_calls acts = filter is_initiate acts"

text \<open>The values \<^verbatim>\<open>setStep\<close> is called with, in order, and the steps the workflow is in
  while the actions run, beginning with the step it starts from.\<close>

fun set_steps :: "action list \<Rightarrow> Step list" where
  "set_steps [] = []"
| "set_steps (SetStep v # as) = v # set_steps as"
| "set_steps (a # as) = set_steps as"

definition step_history :: "ModalState \<Rightarrow> action list \<Rightarrow> Step list" where
  "step_history s acts = step s # set_steps acts"

text \<open>\<open>follows a b xs\<close>: somewhere in \<open>xs\<close> the element \<open>b\<close> comes directly after \<open>a\<close>.\<close>

fun follows :: "'a \<Rightarrow> 'a \<Rightarrow> 'a list \<Rightarrow> bool" where
  "follows a b (x # y # xs) = ((x = a \<and> y = b) \<or> follows a b (y # xs))"
| "follows a b xs = False"



text \<open>Whether the rendered modal shows \<open>errorMessage\<close>: the markup has
  \<^verbatim>\<open>{errorMessage && ...}\<close> in the details form and in the error view, nowhere else.\<close>

definition errorMessage_rendered :: "ModalState \<Rightarrow> bool" where
  "errorMessage_rendered s =
     ((step s = Details \<or> step s = Error) \<and>
      (case errorMessage s of None \<Rightarrow> False | Some m \<Rightarrow> m \<noteq> []))"

text \<open>The actions that write a pricing cell.\<close>

fun pricing_action :: "action \<Rightarrow> bool" where
  "pricing_action (SetCoursePrice v) = True"
| "pricing_action (SetFinalPrice v) = True"
| "pricing_action (SetPromoDiscount v) = True"
| "pricing_action a = False"

text \<open>The pricing invariant of the specification: the final price never exceeds the
  base price, and equals it when no discount is applied.\<close>

definition pricing_inv :: "ModalState \<Rightarrow> bool" where
  "pricing_inv s =
     (finalPrice s \<le> coursePrice s \<and>
      (case promoDiscount s of None \<Rightarrow> finalPrice s = coursePrice s | Some d \<Rightarrow> True))"

text \<open>The final price a resolved validation leaves, read off \<^verbatim>\<open>handleValidatePromo\<close>:
  \<open>c\<close> is the state the validation was submitted in.\<close>

definition applied_price :: "ModalState \<Rightarrow> PromoResult \<Rightarrow> int" where
  "applied_price c r =
     (case (if valid r then final_price r else None) of Some p \<Rightarrow> p | None \<Rightarrow> coursePrice c)"

section \<open>The validation rules as the specification words them\<close>

text \<open>A rule is a check and the message of its failure; the first rule that fails gives
  the result.\<close>

fun first_failure :: "((ModalState \<Rightarrow> bool) \<times> string) list \<Rightarrow> ModalState \<Rightarrow> string option" where
  "first_failure [] c = None"
| "first_failure ((ok, msg) # rules) c = (if ok c then first_failure rules c else Some msg)"

definition validate_by :: "((ModalState \<Rightarrow> bool) \<times> string) list \<Rightarrow> ModalState \<Rightarrow> bool \<times> action list" where
  "validate_by rules c =
     (case first_failure rules c of
        None \<Rightarrow> (True, [])
      | Some msg \<Rightarrow> (False, [SetErrorMessage (Some msg)]))"

text \<open>The four rules in the specification's words: firstName non-empty, email non-empty,
  phoneNumber non-empty if the base price is positive, terms accepted.\<close>

definition spec_rules :: "((ModalState \<Rightarrow> bool) \<times> string) list" where
  "spec_rules =
     [(\<lambda>c. firstName (formData c) \<noteq> [], ''First name is required''),
      (\<lambda>c. email (formData c) \<noteq> [], ''Email is required''),
      (\<lambda>c. if coursePrice c > 0 then phoneNumber (formData c) \<noteq> [] else True,
         ''Phone number is required for paid courses''),
      (\<lambda>c. acceptTerms (formData c), ''You must accept the terms and conditions'')]"

text \<open>The same rules with every field trimmed before it is tested.\<close>

definition trimmed_rules :: "((ModalState \<Rightarrow> bool) \<times> string) list" where
  "trimmed_rules =
     [(\<lambda>c. trim (firstName (formData c)) \<noteq> [], ''First name is required''),
      (\<lambda>c. trim (email (formData c)) \<noteq> [], ''Email is required''),
      (\<lambda>c. if coursePrice c > 0 then trim (phoneNumber (formData c)) \<noteq> [] else True,
         ''Phone number is required for paid courses''),
      (\<lambda>c. acceptTerms (formData c), ''You must accept the terms and conditions'')]"

section \<open>Concrete scenarios\<close>

text \<open>A signed-in user and a profile.\<close>

definition ada :: User where
  "ada = \<lparr> user_id = ''u1'' \<rparr>"

definition ada_profile :: "Profile option" where
  "ada_profile =
     Some \<lparr> profile_name = Some ''Ada Lovelace'', profile_email = Some ''ada@x.org'' \<rparr>"

text \<open>A paid course (50000) on the details step, with the promo field holding
  \<^verbatim>\<open>SAVE20\<close>; the validation of that code answers 20 percent, final price 40000.\<close>

definition promo_entered :: ModalState where
  "promo_entered =
     (initialState None)\<lparr> coursePrice := 50000, finalPrice := 50000, promoCode := ''SAVE20'' \<rparr>"

definition save20_result :: PromoResult where
  "save20_result =
     \<lparr> valid = True, final_price = Some 40000, discount_percentage = Some 20,
       discount_amount = None, promo_error = None \<rparr>"

text \<open>Staleness: the code is submitted, the field is then changed to \<^verbatim>\<open>B\<close>, and only then
  the result for \<^verbatim>\<open>SAVE20\<close> arrives.\<close>

definition stale_submitted :: ModalState where
  "stale_submitted = run (handleValidatePromo_issue ''c1'' promo_entered) promo_entered"

definition stale_edited :: ModalState where
  "stale_edited = run (promoOnChange ''B'' stale_submitted) stale_submitted"

definition stale_arrived :: ModalState where
  "stale_arrived =
     run (handleValidatePromo_resume promo_entered (Resolved save20_result)) stale_edited"

text \<open>Pricing: the code is submitted at base price 50000; the modal is closed and opened
  again for a course priced 10000; only then the result computed for 50000 arrives.\<close>

definition reprice_submitted :: ModalState where
  "reprice_submitted = run (handleValidatePromo_issue ''c1'' promo_entered) promo_entered"

definition reprice_closed :: ModalState where
  "reprice_closed = run (handleClose None reprice_submitted) reprice_submitted"

definition reprice_fetched :: ModalState where
  "reprice_fetched =
     run (priceEffect True ''c2''
            (Resolved \<lparr> fetch_error = False, fetch_data = Some (Some 10000) \<rparr>))
       reprice_closed"

definition reprice_arrived :: ModalState where
  "reprice_arrived =
     run (handleValidatePromo_resume promo_entered (Resolved save20_result)) reprice_fetched"

text \<open>Payment: a paid course on the payment step.\<close>

definition paying :: ModalState where
  "paying =
     (initialState ada_profile)\<lparr> step := Payment, coursePrice := 50000, finalPrice := 50000,
        paymentMethod := Flutterwave \<rparr>"

text \<open>Storage that is not provisioned: the probe returns the error code
  \<^verbatim>\<open>PGRST116\<close>.\<close>

definition unprovisioned :: Collaborators where
  "unprovisioned =
     \<lparr> probe = Resolved (Some \<lparr> code = Some ''PGRST116'' \<rparr>),
       initiate = Resolved \<lparr> res_success = True, res_enrollmentId = Some ''E1'',
                    res_paymentUrl = None, res_error = None \<rparr>,
       setItem = Resolved () \<rparr>"

text \<open>A provider that asks for a redirect.\<close>

definition redirecting :: Collaborators where
  "redirecting =
     \<lparr> probe = Resolved None,
       initiate = Resolved \<lparr> res_success = True, res_enrollmentId = Some ''E1'',
                    res_paymentUrl = Some ''https://pay/x'', res_error = None \<rparr>,
       setItem = Resolved () \<rparr>"

text \<open>A probe that throws, before a payment that completes without redirect.\<close>

definition probe_down :: Collaborators where
  "probe_down =
     \<lparr> probe = Rejected (Some ''Failed to fetch''),
       initiate = Resolved \<lparr> res_success = True, res_enrollmentId = Some ''E9'',
                    res_paymentUrl = None, res_error = None \<rparr>,
       setItem = Resolved () \<rparr>"

text \<open>Price fetch: the modal instance still holds the price 50000 of an earlier session
  when the query answers with an error and no row.\<close>

definition priced_before :: ModalState where
  "priced_before = (initialState None)\<lparr> coursePrice := 50000, finalPrice := 50000 \<rparr>"

definition fetch_failed :: "FetchResult outcome" where
  "fetch_failed = Resolved \<lparr> fetch_error = True, fetch_data = None \<rparr>"

text \<open>Forms: every required field filled in and the terms accepted, the phone number
  empty; and the same form with a first name of one space.\<close>

definition no_phone_form :: FormData where
  "no_phone_form =
     \<lparr> firstName = ''Ada'', lastName = [], email = ''ada@x.org'', phoneNumber = [],
       acceptTerms = True \<rparr>"

definition free_course :: ModalState where
  "free_course = (initialState None)\<lparr> formData := no_phone_form \<rparr>"

definition paid_course :: ModalState where
  "paid_course =
     (initialState None)\<lparr> formData := no_phone_form, coursePrice := 50000,
        finalPrice := 50000 \<rparr>"

definition blank_name :: ModalState where
  "blank_name = (initialState None)\<lparr> formData := no_phone_form\<lparr> firstName := '' '' \<rparr> \<rparr>"

text \<open>Close: a failed session with a filled-in form, and a session with a discount
  applied.\<close>

definition failed_session :: ModalState where
  "failed_session =
     (initialState ada_profile)\<lparr> step := Error, errorMessage := Some ''Payment failed'',
        formData := no_phone_form \<rparr>"

definition discounted :: ModalState where
  "discounted =
     promo_entered\<lparr> finalPrice := 40000,
        promoDiscount := Some \<lparr> percentage = Some 20, amount = None \<rparr> \<rparr>"

text \<open>The next session of that modal instance: it is closed with the discount applied
  and opened again, and the price fetch of the new session answers the unchanged base
  price 50000.\<close>

definition price_50000 :: "FetchResult outcome" where
  "price_50000 = Resolved \<lparr> fetch_error = False, fetch_data = Some (Some 50000) \<rparr>"

definition closed_discounted :: ModalState where
  "closed_discounted = run (handleClose ada_profile discounted) discounted"

definition reopened_discounted :: ModalState where
  "reopened_discounted = run (priceEffect True ''c1'' price_50000) closed_discounted"

text \<open>A validation answer whose final price is above the base price it was computed
  for.\<close>

definition overpriced_result :: PromoResult where
  "overpriced_result =
     \<lparr> valid = True, final_price = Some 60000, discount_percentage = None,
       discount_amount = None, promo_error = None \<rparr>"

section \<open>Auxiliary facts\<close>

lemma apply_action_pricing_frame:
  "\<not> pricing_action a \<Longrightarrow>
   coursePrice (apply_action a s) = coursePrice s \<and>
   finalPrice (apply_action a s) = finalPrice s \<and>
   promoDiscount (apply_action a s) = promoDiscount s"
  by (cases a) simp_all

lemma run_pricing_frame:
  "list_all (\<lambda>a. \<not> pricing_action a) acts \<Longrightarrow>
   coursePrice (run acts s) = coursePrice s \<and>
   finalPrice (run acts s) = finalPrice s \<and>
   promoDiscount (run acts s) = promoDiscount s"
proof (induction acts arbitrary: s)
  case Nil
  then show ?case by simp
next
  case (Cons a acts)
  then show ?case by (simp add: apply_action_pricing_frame)
qed

lemma pricing_inv_frame:
  "list_all (\<lambda>a. \<not> pricing_action a) acts \<Longrightarrow> pricing_inv (run acts s) = pricing_inv s"
  by (simp add: pricing_inv_def run_pricing_frame split: option.splits)

lemma payment_try_no_pricing:
  "list_all (\<lambda>a. \<not> pricing_action a) (payment_try u course_id env c)"
  by (simp add: payment_try_def payment_catch_def split: outcome.splits option.splits)

lemma handlePayment_no_pricing:
  "list_all (\<lambda>a. \<not> pricing_action a) (handlePayment user course_id env c)"
  by (simp add: handlePayment_def probe_catch_def payment_try_no_pricing
      split: outcome.splits option.splits)

lemma validateForm_no_pricing:
  "list_all (\<lambda>a. \<not> pricing_action a) (snd (validateForm c))"
  by (simp add: validateForm_def)

lemma handleProceedToPayment_no_pricing:
  "list_all (\<lambda>a. \<not> pricing_action a) (handleProceedToPayment user course_id env c)"
  by (simp add: handleProceedToPayment_def handlePayment_no_pricing validateForm_no_pricing)

lemma handleClose_no_pricing:
  "list_all (\<lambda>a. \<not> pricing_action a) (handleClose profile c)"
  by (simp add: handleClose_def)

lemma issue_no_pricing:
  "list_all (\<lambda>a. \<not> pricing_action a) (handleValidatePromo_issue course_id c)"
  by (simp add: handleValidatePromo_issue_def)

lemma priceEffect_inv:
  "pricing_inv s \<Longrightarrow> pricing_inv (run (priceEffect isOpen course_id fetched) s)"
  by (simp add: pricing_inv_def priceEffect_def fetchCoursePrice_def
      split: outcome.splits option.splits)

lemma resume_inv:
  "pricing_inv s \<Longrightarrow> coursePrice c = coursePrice s \<Longrightarrow> applied_price c r \<le> coursePrice s \<Longrightarrow>
   pricing_inv (run (handleValidatePromo_resume c (Resolved r)) s)"
  by (auto simp add: pricing_inv_def handleValidatePromo_resume_def applied_price_def
      split: option.splits if_splits)

lemma resume_rejected: "run (handleValidatePromo_resume c (Rejected m)) s = s"
  by (simp add: handleValidatePromo_resume_def)

lemma promoOnChange_resets:
  "promoDiscount (run (promoOnChange v s) s) = None \<and>
   finalPrice (run (promoOnChange v s) s) = coursePrice s \<and>
   coursePrice (run (promoOnChange v s) s) = coursePrice s"
  by (simp add: promoOnChange_def)

lemma initiate_calls_handlePayment:
  "initiate_calls (handlePayment (Some u) course_id env c) =
     (if probe_not_found (probe env) then []
      else [InitiateEnrollment (user_id u) course_id (finalPrice c) (email (formData c))
              (trim (firstName (formData c) @ '' '' @ lastName (formData c)))
              (phoneNumber (formData c)) (paymentMethod c = Eversend)])"
  by (simp add: handlePayment_def payment_try_def payment_catch_def probe_catch_def
      initiate_calls_def split: outcome.splits option.splits)

lemma promo_entered_nonblank: "trim (promoCode promo_entered) \<noteq> []"
  by (simp add: promo_entered_def trim_def is_ws_def)

lemma no_phone_form_ok:
  "trim (firstName no_phone_form) \<noteq> [] \<and> trim (email no_phone_form) \<noteq> [] \<and>
   acceptTerms no_phone_form \<and> phoneNumber no_phone_form = []"
  by (simp add: no_phone_form_def trim_def is_ws_def)

section \<open>Promo validation results and the current field value\<close>

text \<open>
  C1, as claimed: when code A is submitted and the field is changed to another value B
  before A's result arrives, applying A's result changes neither \<open>finalPrice\<close> nor
  \<open>promoDiscount\<close>. The source has no such check. In the scenario below \<^verbatim>\<open>SAVE20\<close> is
  submitted at 50000, the field is edited to \<^verbatim>\<open>B\<close> (which resets the discount and the final
  price), and the continuation of \<^verbatim>\<open>handleValidatePromo\<close> then sets the discount and the
  final price 40000 although the field no longer holds \<^verbatim>\<open>SAVE20\<close>.
\<close>

theorem stale_result_is_applied:
  "promoCode promo_entered = ''SAVE20'' \<and>
   promoCode stale_edited = ''B'' \<and>
   promoCode stale_arrived = ''B'' \<and>
   finalPrice stale_edited = 50000 \<and>
   promoDiscount stale_edited = None \<and>
   finalPrice stale_arrived = 40000 \<and>
   promoDiscount stale_arrived = Some \<lparr> percentage = Some 20, amount = None \<rparr>"
  by (simp add: stale_arrived_def stale_edited_def stale_submitted_def promo_entered_def
      save20_result_def handleValidatePromo_issue_def handleValidatePromo_resume_def
      promoOnChange_def initialState_def trim_def is_ws_def toUpperCase_def)

text \<open>
  C1, amended: the result of a submitted validation is applied when it arrives, whatever
  the promo field holds by then. For a validation submitted in state \<open>c\<close> (with a
  non-blank code) and any state \<open>s\<close> at arrival, a valid result with a final price sets
  \<open>promoDiscount\<close> to its discount and \<open>finalPrice\<close> to its final price; any other result
  clears \<open>promoDiscount\<close> and sets \<open>finalPrice\<close> to the base price \<open>c\<close> had. The promo
  field itself is left as it is.
\<close>

theorem validation_result_applied_on_arrival:
  assumes "trim (promoCode c) \<noteq> []"
  shows "(valid r \<and> final_price r = Some p \<longrightarrow>
            finalPrice (run (handleValidatePromo_resume c (Resolved r)) s) = p \<and>
            promoDiscount (run (handleValidatePromo_resume c (Resolved r)) s) =
              Some \<lparr> percentage = discount_percentage r, amount = discount_amount r \<rparr>) \<and>
         (\<not> valid r \<or> final_price r = None \<longrightarrow>
            finalPrice (run (handleValidatePromo_resume c (Resolved r)) s) = coursePrice c \<and>
            promoDiscount (run (handleValidatePromo_resume c (Resolved r)) s) = None) \<and>
         promoCode (run (handleValidatePromo_resume c (Resolved r)) s) = promoCode s"
  using assms
  by (auto simp add: handleValidatePromo_resume_def split: option.splits)

theorem validation_result_applied_on_arrival_witness:
  "trim (promoCode promo_entered) \<noteq> [] \<and>
   promoCode stale_edited \<noteq> promoCode promo_entered \<and>
   valid save20_result \<and>
   final_price save20_result = Some 40000 \<and>
   finalPrice (run (handleValidatePromo_resume promo_entered (Resolved save20_result))
     stale_edited) = 40000 \<and>
   promoDiscount (run (handleValidatePromo_resume promo_entered (Resolved save20_result))
     stale_edited) = Some \<lparr> percentage = Some 20, amount = None \<rparr>"
proof -
  have edited: "promoCode stale_edited \<noteq> promoCode promo_entered"
    by (simp add: stale_edited_def stale_submitted_def promo_entered_def
        handleValidatePromo_issue_def promoOnChange_def initialState_def trim_def is_ws_def
        toUpperCase_def)
  have res: "valid save20_result" "final_price save20_result = Some 40000"
      "discount_percentage save20_result = Some 20" "discount_amount save20_result = None"
    by (simp_all add: save20_result_def)
  from validation_result_applied_on_arrival
      [OF promo_entered_nonblank, of save20_result 40000 stale_edited, THEN conjunct1]
    promo_entered_nonblank edited res
  show ?thesis by simp
qed

section \<open>The storage probe reports that the table is missing\<close>

text \<open>
  C2, as claimed: on the \<^verbatim>\<open>PGRST116\<close> signal the workflow reaches the error step directly
  from the processing step. In the source the probe runs before \<^verbatim>\<open>setStep('processing')\<close>:
  a payment requested on the payment step goes from there to the error step, and the
  processing step is never entered.
\<close>

theorem setup_required_skips_processing:
  "step_history paying (handlePayment (Some ada) ''c1'' unprovisioned paying) = [Payment, Error] \<and>
   \<not> follows Processing Error
       (step_history paying (handlePayment (Some ada) ''c1'' unprovisioned paying))"
  by (simp add: step_history_def handlePayment_def probe_not_found_def unprovisioned_def
      paying_def initialState_def)

text \<open>
  C2, amended: if the probe returns the error code \<^verbatim>\<open>PGRST116\<close>, then
  \<^verbatim>\<open>initiateEnrollment\<close> is not called in that submission, the only step set is the error
  step (so it is entered from the step the payment was requested in, without passing
  through processing), and the state afterwards is the error step with the
  setup-required message.
\<close>

theorem setup_required_short_circuit:
  assumes "probe_not_found (probe env)"
  shows "initiate_calls (handlePayment (Some u) course_id env c) = [] \<and>
         set_steps (handlePayment (Some u) course_id env c) = [Error] \<and>
         step (run (handlePayment (Some u) course_id env c) s) = Error \<and>
         errorMessage (run (handlePayment (Some u) course_id env c) s) = Some setup_message"
  using assms by (simp add: handlePayment_def initiate_calls_def)

theorem setup_required_short_circuit_witness:
  "probe_not_found (probe unprovisioned) \<and>
   initiate_calls (handlePayment (Some ada) ''c1'' unprovisioned paying) = [] \<and>
   set_steps (handlePayment (Some ada) ''c1'' unprovisioned paying) = [Error] \<and>
   step (run (handlePayment (Some ada) ''c1'' unprovisioned paying) paying) = Error \<and>
   errorMessage (run (handlePayment (Some ada) ''c1'' unprovisioned paying) paying) =
     Some setup_message"
proof -
  have found: "probe_not_found (probe unprovisioned)"
    by (simp add: probe_not_found_def unprovisioned_def)
  from setup_required_short_circuit [OF found, of ada "''c1''" paying paying] found
  show ?thesis by simp
qed

section \<open>The pending record is written before the redirect\<close>



section \<open>A price fetch that fails\<close>

text \<open>
  C4: after a failed price fetch \<open>coursePrice\<close> and \<open>finalPrice\<close> are both 0, whether the
  query throws or returns an error. The \<^verbatim>\<open>catch\<close> block does this (its comment:
  default to free if error). For an error that the query returns, \<^verbatim>\<open>fetchCoursePrice\<close>
  sets nothing: a modal instance that still holds 50000 from an earlier session keeps
  \<open>coursePrice\<close> = \<open>finalPrice\<close> = 50000, where the thrown failure gives 0.
\<close>

theorem returned_fetch_error_keeps_old_price:
  "fetchCoursePrice fetch_failed = [] \<and>
   coursePrice (run (fetchCoursePrice fetch_failed) priced_before) = 50000 \<and>
   finalPrice (run (fetchCoursePrice fetch_failed) priced_before) = 50000 \<and>
   coursePrice (run (fetchCoursePrice (Rejected None)) priced_before) = 0 \<and>
   finalPrice (run (fetchCoursePrice (Rejected None)) priced_before) = 0"
  by (simp add: fetchCoursePrice_def fetch_failed_def priced_before_def initialState_def)

section \<open>Form validation\<close>

text \<open>
  C5, as claimed: the rules are firstName non-empty, email non-empty, phoneNumber
  non-empty when the base price is positive, terms accepted, and a form that satisfies
  them validates. The source tests each field after \<^verbatim>\<open>trim()\<close>: a form whose first name
  is one space satisfies the four rules as worded, and \<^verbatim>\<open>validateForm\<close> rejects it with
  the first-name message.
\<close>

theorem blank_first_name_is_rejected:
  "firstName (formData blank_name) = '' '' \<and>
   first_failure spec_rules blank_name = None \<and>
   validate_by spec_rules blank_name = (True, []) \<and>
   validateForm blank_name = (False, [SetErrorMessage (Some ''First name is required'')])"
  by (simp add: validate_by_def spec_rules_def validateForm_def blank_name_def no_phone_form_def
      initialState_def trim_def is_ws_def)

text \<open>
  C5, amended: validation checks, in this order and with the first failure giving the
  message, (1) firstName non-empty after trimming white space, (2) email non-empty
  after trimming, (3) phoneNumber non-empty after trimming, only when the base price is
  positive, (4) the terms accepted. A form with an empty phoneNumber that satisfies the
  other rules validates when the base price is not positive and fails with the
  phone-required message when it is positive. The setter calls of validation leave the
  form fields as they are.
\<close>

theorem validateForm_first_failure:
  "validateForm c = validate_by trimmed_rules c \<and>
   formData (run (snd (validateForm c)) s) = formData s \<and>
   (trim (firstName (formData c)) \<noteq> [] \<and> trim (email (formData c)) \<noteq> [] \<and>
    acceptTerms (formData c) \<and> phoneNumber (formData c) = [] \<longrightarrow>
      validateForm c =
        (if coursePrice c > 0
         then (False, [SetErrorMessage (Some ''Phone number is required for paid courses'')])
         else (True, [])))"
  by (simp add: validateForm_def validate_by_def trimmed_rules_def trim_def)

theorem validateForm_first_failure_witness:
  "trim (firstName (formData free_course)) \<noteq> [] \<and>
   trim (email (formData free_course)) \<noteq> [] \<and>
   acceptTerms (formData free_course) \<and>
   phoneNumber (formData free_course) = [] \<and>
   formData paid_course = formData free_course \<and>
   coursePrice free_course = 0 \<and>
   coursePrice paid_course = 50000 \<and>
   validateForm free_course = (True, []) \<and>
   validateForm paid_course =
     (False, [SetErrorMessage (Some ''Phone number is required for paid courses'')])"
proof -
  have form: "formData free_course = no_phone_form" "formData paid_course = no_phone_form"
    by (simp_all add: free_course_def paid_course_def)
  have price: "coursePrice free_course = 0" "coursePrice paid_course = 50000"
    by (simp_all add: free_course_def paid_course_def initialState_def)
  from validateForm_first_failure [of free_course free_course, THEN conjunct2, THEN conjunct2]
    no_phone_form_ok form price
  have free: "validateForm free_course = (True, [])" by simp
  from validateForm_first_failure [of paid_course paid_course, THEN conjunct2, THEN conjunct2]
    no_phone_form_ok form price
  have paid: "validateForm paid_course =
      (False, [SetErrorMessage (Some ''Phone number is required for paid courses'')])" by simp
  from no_phone_form_ok form price free paid show ?thesis by simp
qed

section \<open>Payment without a signed-in user\<close>

text \<open>
  C6: without an authenticated user the payment attempt is a workflow failure, the
  session reaching the error step with a message. Every other failure in
  \<^verbatim>\<open>handlePayment\<close> sets the message and the error step; the guard for a missing user sets
  the message and returns. On the payment step, where Pay Now calls \<^verbatim>\<open>handlePayment\<close>,
  the step stays the payment step, whose view does not render \<open>errorMessage\<close>.
\<close>

theorem unauthenticated_payment_stays_on_step:
  "handlePayment None ''c1'' redirecting paying =
     [SetErrorMessage (Some ''User not authenticated'')] \<and>
   initiate_calls (handlePayment None ''c1'' redirecting paying) = [] \<and>
   step (run (handlePayment None ''c1'' redirecting paying) paying) = Payment \<and>
   errorMessage (run (handlePayment None ''c1'' redirecting paying) paying) =
     Some ''User not authenticated'' \<and>
   \<not> errorMessage_rendered (run (handlePayment None ''c1'' redirecting paying) paying)"
  by (simp add: handlePayment_def initiate_calls_def paying_def initialState_def
      errorMessage_rendered_def)

section \<open>Close\<close>

text \<open>
  C7: \<^verbatim>\<open>handleClose\<close> does nothing while the step is processing (no state change, no
  \<^verbatim>\<open>onClose\<close>). From every other step it calls \<^verbatim>\<open>onClose\<close>, returns the step to details
  and resets the form to its defaults: first and last name derived from the profile
  name, the profile's email, an empty phone number, terms not accepted. Closing,
  reopening (which runs the price fetch, with whatever outcome) and closing again gives
  the same default form both times.
\<close>

theorem handleClose_resets_form:
  "(step s = Processing \<longrightarrow>
      handleClose profile s = [] \<and> run (handleClose profile s) s = s) \<and>
   (step s \<noteq> Processing \<longrightarrow>
      OnClose \<in> set (handleClose profile s) \<and>
      step (run (handleClose profile s) s) = Details \<and>
      formData (run (handleClose profile s) s) = defaultFormData profile \<and>
      step (run (handleClose profile
                   (run (priceEffect True course_id out) (run (handleClose profile s) s)))
              (run (priceEffect True course_id out) (run (handleClose profile s) s))) =
        Details \<and>
      formData
        (run (handleClose profile
                (run (priceEffect True course_id out) (run (handleClose profile s) s)))
           (run (priceEffect True course_id out) (run (handleClose profile s) s))) =
        formData (run (handleClose profile s) s)) \<and>
   firstName (defaultFormData profile) = name_part profile 0 \<and>
   lastName (defaultFormData profile) = name_part profile 1 \<and>
   email (defaultFormData profile) =
     (case profile of None \<Rightarrow> [] | Some p \<Rightarrow> or_else (profile_email p) []) \<and>
   phoneNumber (defaultFormData profile) = [] \<and>
   \<not> acceptTerms (defaultFormData profile)"
  by (auto simp add: handleClose_def priceEffect_def fetchCoursePrice_def defaultFormData_def
      split: outcome.splits option.splits)

theorem handleClose_resets_form_witness:
  "step failed_session \<noteq> Processing \<and>
   step (failed_session\<lparr> step := Processing \<rparr>) = Processing \<and>
   formData failed_session = no_phone_form \<and>
   step (run (handleClose ada_profile failed_session) failed_session) = Details \<and>
   formData (run (handleClose ada_profile failed_session) failed_session) =
     \<lparr> firstName = ''Ada'', lastName = ''Lovelace'', email = ''ada@x.org'', phoneNumber = [],
       acceptTerms = False \<rparr> \<and>
   handleClose ada_profile (failed_session\<lparr> step := Processing \<rparr>) = []"
proof -
  have st: "step failed_session \<noteq> Processing"
      "step (failed_session\<lparr> step := Processing \<rparr>) = Processing"
      "formData failed_session = no_phone_form"
    by (simp_all add: failed_session_def)
  have dflt: "defaultFormData ada_profile =
      \<lparr> firstName = ''Ada'', lastName = ''Lovelace'', email = ''ada@x.org'', phoneNumber = [],
        acceptTerms = False \<rparr>"
    by (simp add: defaultFormData_def name_part_def ada_profile_def split_def at_index_def
        or_else_def)
  from handleClose_resets_form [of failed_session ada_profile "''c1''" "Rejected None"]
    handleClose_resets_form [of "failed_session\<lparr> step := Processing \<rparr>" ada_profile "''c1''"
      "Rejected None"] st dflt
  show ?thesis by simp
qed

section \<open>The pricing invariant\<close>

text \<open>
  C8, as claimed: at all times \<open>finalPrice\<close> is at most the base price. A validation
  result is applied with the final price the service computed for the base price at
  submission; nothing compares it with the base price at arrival. In the scenario the
  code is submitted at 50000, the modal is closed and opened again for a course whose
  price is fetched as 10000, and the result for 50000 then sets \<open>finalPrice\<close> to 40000,
  above the base price 10000. The invariant holds in every state before that one.
\<close>

theorem late_result_exceeds_base_price:
  "pricing_inv promo_entered \<and>
   pricing_inv reprice_submitted \<and>
   pricing_inv reprice_closed \<and>
   pricing_inv reprice_fetched \<and>
   coursePrice reprice_arrived = 10000 \<and>
   finalPrice reprice_arrived = 40000 \<and>
   \<not> finalPrice reprice_arrived \<le> coursePrice reprice_arrived \<and>
   \<not> pricing_inv reprice_arrived"
  by (simp add: pricing_inv_def reprice_arrived_def reprice_fetched_def reprice_closed_def
      reprice_submitted_def promo_entered_def save20_result_def handleValidatePromo_issue_def
      handleValidatePromo_resume_def handleClose_def priceEffect_def fetchCoursePrice_def
      or_zero_def initialState_def defaultFormData_def name_part_def trim_def is_ws_def)

text \<open>
  C8, amended: the invariant (\<open>finalPrice\<close> at most the base price, and equal to it when
  no discount is applied) holds in the initial state and is kept by the price fetch, by
  submitting a validation, by a validation that throws, by form submission, payment and
  close, and by applying a validation result provided the base price has not changed
  since the validation was submitted and the price the result applies is at most that
  base price. Any edit of the promo input clears \<open>promoDiscount\<close> and sets \<open>finalPrice\<close> to
  the base price, which establishes the invariant. The amount passed to
  \<^verbatim>\<open>initiateEnrollment\<close> is \<open>finalPrice\<close>.
\<close>

theorem pricing_invariant_kept:
  "pricing_inv (initialState profile) \<and>
   (pricing_inv s \<longrightarrow>
      pricing_inv (run (priceEffect isOpen course_id fetched) s) \<and>
      pricing_inv (run (handleValidatePromo_issue course_id c) s) \<and>
      pricing_inv (run (handleValidatePromo_resume c (Rejected m)) s) \<and>
      (coursePrice c = coursePrice s \<and> applied_price c r \<le> coursePrice s \<longrightarrow>
         pricing_inv (run (handleValidatePromo_resume c (Resolved r)) s)) \<and>
      pricing_inv (run (handleProceedToPayment user course_id env c) s) \<and>
      pricing_inv (run (handlePayment user course_id env c) s) \<and>
      pricing_inv (run (handleClose profile c) s)) \<and>
   pricing_inv (run (promoOnChange v s) s) \<and>
   promoDiscount (run (promoOnChange v s) s) = None \<and>
   finalPrice (run (promoOnChange v s) s) = coursePrice s \<and>
   initiate_calls (handlePayment (Some u) course_id env c) =
     (if probe_not_found (probe env) then []
      else [InitiateEnrollment (user_id u) course_id (finalPrice c) (email (formData c))
              (trim (firstName (formData c) @ '' '' @ lastName (formData c)))
              (phoneNumber (formData c)) (paymentMethod c = Eversend)])"
proof -
  have init: "pricing_inv (initialState profile)"
    by (simp add: pricing_inv_def initialState_def)
  have edit: "pricing_inv (run (promoOnChange v s) s)"
    by (simp add: pricing_inv_def promoOnChange_resets)
  show ?thesis
    using init edit priceEffect_inv resume_inv
    by (simp add: pricing_inv_frame handlePayment_no_pricing handleProceedToPayment_no_pricing
        handleClose_no_pricing issue_no_pricing resume_rejected promoOnChange_resets
        initiate_calls_handlePayment)
qed

theorem pricing_invariant_kept_witness:
  "pricing_inv promo_entered \<and>
   coursePrice promo_entered = 50000 \<and>
   applied_price promo_entered save20_result = 40000 \<and>
   pricing_inv (run (handleValidatePromo_resume promo_entered (Resolved save20_result))
     promo_entered) \<and>
   finalPrice (run (handleValidatePromo_resume promo_entered (Resolved save20_result))
     promo_entered) = 40000 \<and>
   pricing_inv (run (promoOnChange ''B'' discounted) discounted) \<and>
   finalPrice (run (promoOnChange ''B'' discounted) discounted) = 50000 \<and>
   initiate_calls (handlePayment (Some ada) ''c1'' redirecting discounted) =
     [InitiateEnrollment ''u1'' ''c1'' 40000 [] [] [] True]"
proof -
  have inv: "pricing_inv promo_entered"
    by (simp add: pricing_inv_def promo_entered_def initialState_def)
  have base: "coursePrice promo_entered = 50000" "coursePrice discounted = 50000"
    by (simp_all add: discounted_def promo_entered_def initialState_def)
  have price: "applied_price promo_entered save20_result = 40000"
    by (simp add: applied_price_def save20_result_def)
  have arrived: "finalPrice (run (handleValidatePromo_resume promo_entered
      (Resolved save20_result)) promo_entered) = 40000"
    by (simp add: handleValidatePromo_resume_def promo_entered_nonblank save20_result_def)
  have call: "\<not> probe_not_found (probe redirecting)" "user_id ada = ''u1''"
      "finalPrice discounted = 40000" "formData discounted = defaultFormData None"
      "paymentMethod discounted = Eversend"
    by (simp_all add: probe_not_found_def redirecting_def ada_def discounted_def
        promo_entered_def initialState_def)
  have form: "defaultFormData None =
      \<lparr> firstName = [], lastName = [], email = [], phoneNumber = [], acceptTerms = False \<rparr>"
    by (simp add: defaultFormData_def name_part_def)
  have blank: "trim '' '' = []"
    by (simp add: trim_def is_ws_def)
  from pricing_invariant_kept [of None promo_entered True "''c1''" "Rejected None"
      promo_entered None save20_result None redirecting "''B''" ada]
    pricing_invariant_kept [of None discounted True "''c1''" "Rejected None"
      discounted None save20_result None redirecting "''B''" ada]
    inv base price arrived call form blank
  show ?thesis by simp
qed

text \<open>
  The proviso on the applied price is needed as well as the one on the base price: the
  handler stores \<^verbatim>\<open>result.final_price\<close> as it comes, so an answer of 60000 for the
  unchanged base price 50000 leaves \<open>finalPrice\<close> above the base price.
\<close>

lemma unchecked_result_exceeds_base_price:
  "pricing_inv promo_entered \<and>
   coursePrice (run (handleValidatePromo_resume promo_entered (Resolved overpriced_result))
     promo_entered) = 50000 \<and>
   finalPrice (run (handleValidatePromo_resume promo_entered (Resolved overpriced_result))
     promo_entered) = 60000 \<and>
   \<not> pricing_inv (run (handleValidatePromo_resume promo_entered (Resolved overpriced_result))
     promo_entered)"
  by (simp add: pricing_inv_def handleValidatePromo_resume_def overpriced_result_def
      promo_entered_def initialState_def trim_def is_ws_def)

section \<open>Close leaves promo and pricing state alone\<close>

text \<open>
  C9, as claimed: close leaves the promo and pricing state unchanged, so a promo discount
  and the discounted \<open>finalPrice\<close> applied before closing persist into the next session
  of the same modal instance. The first half holds. The next session, however, begins
  with the price effect (it runs whenever \<^verbatim>\<open>isOpen\<close> changes), and a successful fetch
  calls \<^verbatim>\<open>setFinalPrice\<close> with the fetched base price: with the discount 20 percent
  applied at 50000 the final price is 40000 before and after close, and 50000 once the
  reopened modal has fetched the price, while \<open>promoDiscount\<close> and \<open>promoCode\<close> are
  still those of the applied discount.
\<close>

theorem discounted_price_lost_on_reopen:
  "coursePrice discounted = 50000 \<and>
   finalPrice discounted = 40000 \<and>
   finalPrice closed_discounted = 40000 \<and>
   promoDiscount closed_discounted = Some \<lparr> percentage = Some 20, amount = None \<rparr> \<and>
   finalPrice reopened_discounted = 50000 \<and>
   finalPrice reopened_discounted \<noteq> finalPrice discounted \<and>
   promoDiscount reopened_discounted = Some \<lparr> percentage = Some 20, amount = None \<rparr> \<and>
   promoCode reopened_discounted = ''SAVE20''"
  by (simp add: reopened_discounted_def closed_discounted_def price_50000_def discounted_def
      promo_entered_def initialState_def handleClose_def priceEffect_def fetchCoursePrice_def
      or_zero_def)

text \<open>
  C9, amended: closing changes at most the step, the form fields, \<open>errorMessage\<close> and
  \<open>enrollmentId\<close>; the promo state (\<open>promoCode\<close>, \<open>promoDiscount\<close>, \<open>promoError\<close>) and the
  pricing state (\<open>coursePrice\<close>, \<open>finalPrice\<close>) after \<^verbatim>\<open>handleClose\<close> are what they were
  before it, in whatever step the modal is closed. In the next session of the same modal
  instance \<open>promoCode\<close>, \<open>promoDiscount\<close> and \<open>promoError\<close> are still those values, and
  \<open>coursePrice\<close> and \<open>finalPrice\<close> are those values only until the price fetch of that
  session completes: a fetch that succeeds sets both to the fetched price, a fetch that
  throws sets both to 0, and a fetch that returns an error or no row leaves both as they
  were at close.
\<close>

theorem close_frame_and_next_session:
  assumes "course_id \<noteq> []"
  shows
  "promoCode (run (handleClose profile s) s) = promoCode s \<and>
   promoDiscount (run (handleClose profile s) s) = promoDiscount s \<and>
   promoError (run (handleClose profile s) s) = promoError s \<and>
   coursePrice (run (handleClose profile s) s) = coursePrice s \<and>
   finalPrice (run (handleClose profile s) s) = finalPrice s \<and>
   promoValidating (run (handleClose profile s) s) = promoValidating s \<and>
   paymentMethod (run (handleClose profile s) s) = paymentMethod s \<and>
   run (handleClose profile s) s =
     (if step s = Processing then s
      else s\<lparr>step := Details, formData := defaultFormData profile,
             errorMessage := None, enrollmentId := None\<rparr>) \<and>
   promoCode (run (priceEffect True course_id out) (run (handleClose profile s) s)) =
     promoCode s \<and>
   promoDiscount (run (priceEffect True course_id out) (run (handleClose profile s) s)) =
     promoDiscount s \<and>
   promoError (run (priceEffect True course_id out) (run (handleClose profile s) s)) =
     promoError s \<and>
   (out = Rejected m \<longrightarrow>
      coursePrice (run (priceEffect True course_id out) (run (handleClose profile s) s)) = 0 \<and>
      finalPrice (run (priceEffect True course_id out) (run (handleClose profile s) s)) = 0) \<and>
   (out = Resolved r \<and> \<not> fetch_error r \<and> fetch_data r = Some row \<longrightarrow>
      coursePrice (run (priceEffect True course_id out) (run (handleClose profile s) s)) =
        or_zero row \<and>
      finalPrice (run (priceEffect True course_id out) (run (handleClose profile s) s)) =
        or_zero row) \<and>
   (out = Resolved r \<and> (fetch_error r \<or> fetch_data r = None) \<longrightarrow>
      coursePrice (run (priceEffect True course_id out) (run (handleClose profile s) s)) =
        coursePrice s \<and>
      finalPrice (run (priceEffect True course_id out) (run (handleClose profile s) s)) =
        finalPrice s)"
proof -
  have frame:
    "run (handleClose profile s) s =
       (if step s = Processing then s
        else s\<lparr>step := Details, formData := defaultFormData profile,
               errorMessage := None, enrollmentId := None\<rparr>)"
    by (simp add: handleClose_def)
  have effect: "priceEffect True course_id out = fetchCoursePrice out"
    using assms by (simp add: priceEffect_def)
  show ?thesis
    unfolding effect frame
    by (auto simp add: fetchCoursePrice_def split: outcome.splits option.splits)
qed

theorem close_frame_and_next_session_witness:
  "''c1'' \<noteq> [] \<and>
   promoCode (run (handleClose ada_profile discounted) discounted) = ''SAVE20'' \<and>
   promoDiscount (run (handleClose ada_profile discounted) discounted) =
     Some \<lparr> percentage = Some 20, amount = None \<rparr> \<and>
   coursePrice (run (handleClose ada_profile discounted) discounted) = 50000 \<and>
   finalPrice (run (handleClose ada_profile discounted) discounted) = 40000 \<and>
   promoDiscount (run (priceEffect True ''c1'' price_50000)
     (run (handleClose ada_profile discounted) discounted)) =
     Some \<lparr> percentage = Some 20, amount = None \<rparr> \<and>
   finalPrice (run (priceEffect True ''c1'' price_50000)
     (run (handleClose ada_profile discounted) discounted)) = 50000 \<and>
   finalPrice (run (priceEffect True ''c1'' (Rejected None))
     (run (handleClose ada_profile discounted) discounted)) = 0 \<and>
   finalPrice (run (priceEffect True ''c1'' fetch_failed)
     (run (handleClose ada_profile discounted) discounted)) = 40000"
proof -
  have cid: "''c1'' \<noteq> []" by simp
  have cells: "promoCode discounted = ''SAVE20''" "coursePrice discounted = 50000"
      "finalPrice discounted = 40000"
      "promoDiscount discounted = Some \<lparr> percentage = Some 20, amount = None \<rparr>"
    by (simp_all add: discounted_def promo_entered_def initialState_def)
  have ok: "price_50000 = Resolved \<lparr> fetch_error = False, fetch_data = Some (Some 50000) \<rparr>"
      "\<not> fetch_error \<lparr> fetch_error = False, fetch_data = Some (Some 50000) \<rparr>"
      "fetch_data \<lparr> fetch_error = False, fetch_data = Some (Some 50000) \<rparr> = Some (Some 50000)"
      "or_zero (Some 50000) = 50000"
    by (simp_all add: price_50000_def or_zero_def)
  have bad: "fetch_failed = Resolved \<lparr> fetch_error = True, fetch_data = None \<rparr>"
      "fetch_error \<lparr> fetch_error = True, fetch_data = None \<rparr>"
    by (simp_all add: fetch_failed_def)
  note fetched = close_frame_and_next_session [OF cid, of ada_profile discounted price_50000 None
      "\<lparr> fetch_error = False, fetch_data = Some (Some 50000) \<rparr>" "Some 50000"]
  note thrown = close_frame_and_next_session [OF cid, of ada_profile discounted "Rejected None" None
      "\<lparr> fetch_error = True, fetch_data = None \<rparr>" None]
  note errored = close_frame_and_next_session [OF cid, of ada_profile discounted fetch_failed None
      "\<lparr> fetch_error = True, fetch_data = None \<rparr>" None]
  have closed: "promoCode (run (handleClose ada_profile discounted) discounted) =
        promoCode discounted"
      "promoDiscount (run (handleClose ada_profile discounted) discounted) =
        promoDiscount discounted"
      "coursePrice (run (handleClose ada_profile discounted) discounted) =
        coursePrice discounted"
      "finalPrice (run (handleClose ada_profile discounted) discounted) =
        finalPrice discounted"
    using fetched by blast+
  have kept: "promoDiscount (run (priceEffect True ''c1'' price_50000)
        (run (handleClose ada_profile discounted) discounted)) = promoDiscount discounted"
    using fetched by blast
  have reset: "finalPrice (run (priceEffect True ''c1'' price_50000)
        (run (handleClose ada_profile discounted) discounted)) = or_zero (Some 50000)"
    using fetched ok(1,2,3) by blast
  have zero: "finalPrice (run (priceEffect True ''c1'' (Rejected None))
        (run (handleClose ada_profile discounted) discounted)) = 0"
    using thrown by blast
  have same: "finalPrice (run (priceEffect True ''c1'' fetch_failed)
        (run (handleClose ada_profile discounted) discounted)) = finalPrice discounted"
    using errored bad by blast
  from closed kept reset zero same cells ok(4) show ?thesis by simp
qed

section \<open>A storage probe that throws\<close>

text \<open>
  C10: if the probe throws, the exception is caught and logged, the step is set to
  processing and \<^verbatim>\<open>initiateEnrollment\<close> is called once; the state afterwards is the one a
  probe without error gives, so a thrown probe failure does not block the workflow and
  does not produce the setup-required failure. With a signed-in user,
  \<^verbatim>\<open>initiateEnrollment\<close> is left uncalled exactly when the probe returns the error code
  \<^verbatim>\<open>PGRST116\<close>.
\<close>

theorem thrown_probe_does_not_block:
  assumes "probe env = Rejected m"
  shows "handlePayment (Some u) course_id env c =
           [SetErrorMessage None, ProbeStorage, ConsoleError ''Database check failed:'',
            SetStep Processing] @ payment_try u course_id env c \<and>
         length (initiate_calls (handlePayment (Some u) course_id env c)) = 1 \<and>
         run (handlePayment (Some u) course_id env c) s =
           run (handlePayment (Some u) course_id (env\<lparr> probe := Resolved None \<rparr>) c) s \<and>
         (initiate_calls (handlePayment (Some u) course_id env' c) = []) =
           probe_not_found (probe env')"
proof -
  have not_found: "\<not> probe_not_found (probe env)"
    using assms by (simp add: probe_not_found_def)
  have same_try: "payment_try u course_id (env\<lparr> probe := Resolved None \<rparr>) c =
      payment_try u course_id env c"
    by (simp add: payment_try_def split: outcome.splits option.splits)
  have trace: "handlePayment (Some u) course_id env c =
      [SetErrorMessage None, ProbeStorage, ConsoleError ''Database check failed:'',
       SetStep Processing] @ payment_try u course_id env c"
    using assms not_found by (simp add: handlePayment_def probe_catch_def)
  have clean: "handlePayment (Some u) course_id (env\<lparr> probe := Resolved None \<rparr>) c =
      [SetErrorMessage None, ProbeStorage, SetStep Processing] @ payment_try u course_id env c"
    by (simp add: handlePayment_def probe_catch_def probe_not_found_def same_try)
  have once: "length (initiate_calls (handlePayment (Some u) course_id env c)) = 1"
    using not_found by (simp add: initiate_calls_handlePayment)
  have only: "(initiate_calls (handlePayment (Some u) course_id env' c) = []) =
      probe_not_found (probe env')"
    by (simp add: initiate_calls_handlePayment)
  from trace clean once only show ?thesis by simp
qed

theorem thrown_probe_does_not_block_witness:
  "probe probe_down = Rejected (Some ''Failed to fetch'') \<and>
   initiate_calls (handlePayment (Some ada) ''c1'' probe_down paying) =
     [InitiateEnrollment ''u1'' ''c1'' 50000 ''ada@x.org'' ''Ada Lovelace'' [] False] \<and>
   step (run (handlePayment (Some ada) ''c1'' probe_down paying) paying) = Success \<and>
   errorMessage (run (handlePayment (Some ada) ''c1'' probe_down paying) paying) = None"
proof -
  have thrown: "probe probe_down = Rejected (Some ''Failed to fetch'')"
    by (simp add: probe_down_def)
  have dflt: "formData paying =
      \<lparr> firstName = ''Ada'', lastName = ''Lovelace'', email = ''ada@x.org'', phoneNumber = [],
        acceptTerms = False \<rparr>"
    by (simp add: paying_def initialState_def defaultFormData_def name_part_def ada_profile_def
        split_def at_index_def or_else_def)
  have nm: "trim ''Ada Lovelace'' = ''Ada Lovelace''"
    by (simp add: trim_def is_ws_def)
  have cells: "finalPrice paying = 50000" "paymentMethod paying = Flutterwave"
      "user_id ada = ''u1''"
    by (simp_all add: paying_def ada_def)
  from thrown_probe_does_not_block [OF thrown, of ada "''c1''" paying paying probe_down]
  show ?thesis
    by (simp add: thrown payment_try_def probe_down_def or_null_def initiate_calls_def
        dflt nm cells)
qed

end
